theory Spec2Isabelle
  imports Complex_Main "HOL-Library.Multiset" "HOL-Library.AList"
begin

section \<open>Data model\<close>

text \<open>
  Instants (JavaScript \<open>Date\<close> values) are their epoch time in milliseconds, the value of
  \<open>getTime()\<close>. JavaScript numbers are modelled as exact rationals; the only non-integer
  operation of the program is the division \<open>200 / hoursRemaining\<close>.

  The columns \<open>type\<close>, \<open>status\<close> and \<open>priority\<close> of the Activity table are TEXT and the
  generated Prisma types are unions of string literals, so they are strings here: the
  \<open>default\<close> branches of the two \<open>switch\<close> statements stay reachable, as in the source.
\<close>

type_synonym Date = int

datatype Color = red | yellow | green | none

datatype PrioritySource = auto | manual

record Activity =
  id' :: string
  subjectId :: string
  type :: string
  name :: string
  description :: "string option"
  startAt :: "Date option"
  dueAt :: "Date option"
  status :: string
  priority :: string
  manualPriority :: "int option"
  createdAt :: Date
  updatedAt :: Date
  completedAt :: "Date option"
  completedBy :: "string option"

text \<open>\<open>RankedActivity = Activity & { score; color; prioritySource }\<close>\<close>

record RankedActivity = Activity +
  score :: rat
  color :: Color
  prioritySource :: PrioritySource

section \<open>Library functions used by the scoring engine\<close>

text \<open>
  \<open>differenceInHours\<close> of date-fns: the difference in milliseconds divided by the
  milliseconds of an hour, rounded towards zero (\<open>Math.ceil\<close> below zero, \<open>Math.floor\<close>
  otherwise).
\<close>

definition millisecondsInHour :: int where
  "millisecondsInHour = 3600000"

definition differenceInHours :: "Date \<Rightarrow> Date \<Rightarrow> int" where
  "differenceInHours dateLeft dateRight =
     (let diff = dateLeft - dateRight
      in if diff < 0 then - ((- diff) div millisecondsInHour)
         else diff div millisecondsInHour)"

text \<open>Truthiness of a \<open>number | null\<close>: \<open>null\<close> and \<open>0\<close> are falsy.\<close>

fun truthy_number :: "int option \<Rightarrow> bool" where
  "truthy_number None = False"
| "truthy_number (Some n) = (n \<noteq> 0)"

section \<open>Scoring engine\<close>

definition computeColorByDue :: "int option \<Rightarrow> Color" where
  "computeColorByDue hoursRemaining =
     (case hoursRemaining of
        None \<Rightarrow> none
      | Some h \<Rightarrow>
          if h \<le> 48 then red
          else if h \<ge> 72 \<and> h \<le> 120 then yellow
          else if h > 120 then green
          else none)"

definition computeTypeBase :: "string \<Rightarrow> rat" where
  "computeTypeBase t =
     (if t = ''examen'' then 100
      else if t = ''entrega'' \<or> t = ''tarea'' then 70
      else if t = ''lectura'' then 40
      else 10)"

definition computeStateAdjust :: "string \<Rightarrow> rat" where
  "computeStateAdjust s =
     (if s = ''pending'' then 20
      else if s = ''in_progress'' then 10
      else if s = ''completed'' then - 100
      else 0)"

text \<open>
  The local \<open>hoursRemaining\<close> of \<open>rankActivity\<close>: \<open>null\<close> unless \<open>a.dueAt\<close> is set (a
  \<open>Date\<close> object is always truthy), then \<open>Math.max(1, differenceInHours(a.dueAt, nowUtc))\<close>.
\<close>

definition hoursRemaining :: "'a Activity_scheme \<Rightarrow> Date \<Rightarrow> int option" where
  "hoursRemaining a nowUtc =
     (case dueAt a of
        None \<Rightarrow> None
      | Some due \<Rightarrow> Some (max 1 (differenceInHours due nowUtc)))"

text \<open>The local \<open>urgency\<close>: \<open>hoursRemaining ? 200 / hoursRemaining : 0\<close>.\<close>

definition urgency :: "int option \<Rightarrow> rat" where
  "urgency h = (if truthy_number h then 200 / of_int (the h) else 0)"

definition autoScore :: "'a Activity_scheme \<Rightarrow> Date \<Rightarrow> rat" where
  "autoScore a nowUtc =
     computeTypeBase (type a) + computeStateAdjust (status a)
       + urgency (hoursRemaining a nowUtc)"

text \<open>
  The guard of the manual branch, \<open>a.priority === 'manual' && a.manualPriority != null\<close>:
  a test against \<open>null\<close>, which the number \<open>0\<close> passes.
\<close>

definition honoursManual :: "'a Activity_scheme \<Rightarrow> bool" where
  "honoursManual a = (priority a = ''manual'' \<and> manualPriority a \<noteq> None)"

text \<open>
  \<open>rankActivity\<close>: the score and the source are those of the manual branch when its guard
  holds, the auto score and \<open>auto\<close> otherwise; \<open>Object.assign({}, a, {score, color,
  prioritySource})\<close> is the record \<open>a\<close> extended by the three fields.
\<close>

definition rankActivity :: "Activity \<Rightarrow> Date \<Rightarrow> RankedActivity" where
  "rankActivity a nowUtc =
     (let hrs = hoursRemaining a nowUtc;
          auto_score = autoScore a nowUtc;
          (sc, src) =
            (if honoursManual a then (of_int (the (manualPriority a)), manual)
             else (auto_score, auto));
          col = computeColorByDue hrs
      in Activity.extend a (RankedActivity.fields sc col src))"

section \<open>Ranking endpoint\<close>

text \<open>
  The store is the list of the rows of the Activity table; \<open>findMany\<close> returns the rows
  that satisfy the \<open>where\<close> clause. A query parameter is \<open>string | undefined\<close>; the test
  \<open>if (subjectId)\<close> is falsy for \<open>undefined\<close> and for the empty string.
\<close>

fun truthy_string :: "string option \<Rightarrow> bool" where
  "truthy_string None = False"
| "truthy_string (Some s) = (s \<noteq> [])"

definition findMany :: "(Activity \<Rightarrow> bool) \<Rightarrow> Activity list \<Rightarrow> Activity list" where
  "findMany wh db = filter wh db"

text \<open>\<open>x || y\<close> on numbers: \<open>x\<close> unless it is \<open>0\<close>.\<close>

definition js_or :: "rat \<Rightarrow> rat \<Rightarrow> rat" where
  "js_or x y = (if x \<noteq> 0 then x else y)"

text \<open>\<open>d?.getTime() ?? 0\<close>\<close>

definition getTimeOr0 :: "Date option \<Rightarrow> rat" where
  "getTimeOr0 d = (case d of None \<Rightarrow> 0 | Some t \<Rightarrow> of_int t)"

text \<open>The comparison function handed to \<open>ranked.sort\<close>.\<close>

definition rankingCompare :: "RankedActivity \<Rightarrow> RankedActivity \<Rightarrow> rat" where
  "rankingCompare a b =
     js_or (score b - score a)
       (js_or (getTimeOr0 (dueAt a) - getTimeOr0 (dueAt b))
          (computeTypeBase (type b) - computeTypeBase (type a)))"

text \<open>
  \<open>Array.prototype.sort\<close> with a comparison function is a stable sort: \<open>x\<close> stays before
  \<open>y\<close> unless the comparison of \<open>x\<close> with \<open>y\<close> is positive. It is modelled as the stable
  insertion sort.
\<close>

fun insertSorted :: "('a \<Rightarrow> 'a \<Rightarrow> rat) \<Rightarrow> 'a \<Rightarrow> 'a list \<Rightarrow> 'a list" where
  "insertSorted cmp x [] = [x]"
| "insertSorted cmp x (y # ys) =
     (if cmp x y \<le> 0 then x # y # ys else y # insertSorted cmp x ys)"

definition arraySort :: "('a \<Rightarrow> 'a \<Rightarrow> rat) \<Rightarrow> 'a list \<Rightarrow> 'a list" where
  "arraySort cmp xs = foldr (insertSorted cmp) xs []"

definition ranking :: "Activity list \<Rightarrow> string option \<Rightarrow> Date \<Rightarrow> RankedActivity list" where
  "ranking db subjectIdQ nowUtc =
     (let wh = (\<lambda>a. type a \<noteq> ''clase''
                  \<and> (if truthy_string subjectIdQ then subjectId a = the subjectIdQ else True));
          items = findMany wh db;
          ranked = map (\<lambda>a. rankActivity a nowUtc) items
      in arraySort rankingCompare ranked)"

section \<open>Toggle-completed endpoint\<close>

datatype error = NotFound | RecordToUpdateNotFound

definition findUnique :: "Activity list \<Rightarrow> string \<Rightarrow> Activity option" where
  "findUnique db i = find (\<lambda>a. id' a = i) db"

text \<open>
  Modelled from the spec: the Prisma schema is not among the sources; by the spec the
  last-update timestamp is refreshed on every mutation. \<open>update\<close> writes \<open>data\<close> into the
  row with the given id and returns the new store and the updated row; Prisma rejects
  when there is no such row.
\<close>

definition update ::
  "Activity list \<Rightarrow> string \<Rightarrow> (Activity \<Rightarrow> Activity) \<Rightarrow> Date \<Rightarrow> error + (Activity list \<times> Activity)"
where
  "update db i data now =
     (case findUnique db i of
        None \<Rightarrow> Inl RecordToUpdateNotFound
      | Some row \<Rightarrow>
          let updated = (data row)\<lparr>updatedAt := now\<rparr>
          in Inr (map (\<lambda>r. if id' r = i then updated else r) db, updated))"

text \<open>
  \<open>POST /api/activities/:id/toggle-completed\<close> at the instant \<open>now\<close>: 404 when the id is
  unknown, otherwise the new store and the updated row that is sent back.
\<close>

definition toggleCompleted ::
  "Activity list \<Rightarrow> string \<Rightarrow> Date \<Rightarrow> error + (Activity list \<times> Activity)"
where
  "toggleCompleted db i now =
     (case findUnique db i of
        None \<Rightarrow> Inl NotFound
      | Some current \<Rightarrow>
          let nextStatus = (if status current = ''completed'' then ''pending'' else ''completed'');
              updateData =
                (if nextStatus = ''completed''
                 then (\<lambda>r. r\<lparr>status := nextStatus, completedAt := Some now,
                              completedBy := Some ''student''\<rparr>)
                 else (\<lambda>r. r\<lparr>status := nextStatus, completedAt := None,
                              completedBy := None\<rparr>))
          in update db i updateData now)"

text \<open>Two calls of the endpoint, one after the other, at the instants \<open>now1\<close> and \<open>now2\<close>.\<close>

definition toggleTwice ::
  "Activity list \<Rightarrow> string \<Rightarrow> Date \<Rightarrow> Date \<Rightarrow> error + (Activity list \<times> Activity)"
where
  "toggleTwice db i now1 now2 =
     (case toggleCompleted db i now1 of
        Inl e \<Rightarrow> Inl e
      | Inr (db1, updated) \<Rightarrow> toggleCompleted db1 i now2)"

section \<open>Weekly summary endpoint\<close>














section \<open>Sample data\<close>

text \<open>An exam due twelve hours after the epoch, as the seed's \<open>Quiz sorpresa\<close>.\<close>

definition sampleActivity :: Activity where
  "sampleActivity =
     \<lparr> id' = ''a1'', subjectId = ''s1'', type = ''examen'', name = ''Quiz sorpresa'',
       description = None, startAt = None, dueAt = Some 43200000, status = ''pending'',
       priority = ''auto'', manualPriority = None, createdAt = 0, updatedAt = 0,
       completedAt = None, completedBy = None \<rparr>"

text \<open>
  A store at the epoch: a class, and four activities of which three score 110 (one has no
  due date, two are due at the same instant with different types).
\<close>

definition sampleDb :: "Activity list" where
  "sampleDb =
     [ sampleActivity\<lparr>id' := ''c1'', type := ''clase'', dueAt := None\<rparr>,
       sampleActivity\<lparr>id' := ''a4'', subjectId := ''s2'', type := ''lectura'',
         priority := ''manual'', manualPriority := Some 110, dueAt := Some 36000000\<rparr>,
       sampleActivity\<lparr>id' := ''a2'', subjectId := ''s2'', type := ''tarea'',
         dueAt := Some 36000000\<rparr>,
       sampleActivity\<lparr>id' := ''a3'', status := ''in_progress'', dueAt := None\<rparr>,
       sampleActivity ]"

text \<open>
  Two activities with the manual priority 50: one without a due date, one due an hour
  before the epoch (1969-12-31T23:00:00Z).
\<close>

definition beforeEpochDb :: "Activity list" where
  "beforeEpochDb =
     [ sampleActivity\<lparr>id' := ''n1'', priority := ''manual'', manualPriority := Some 50,
         dueAt := None\<rparr>,
       sampleActivity\<lparr>id' := ''d1'', priority := ''manual'', manualPriority := Some 50,
         dueAt := Some (- 3600000)\<rparr> ]"





lemmas sample_simps = sampleActivity_def differenceInHours_def millisecondsInHour_def

section \<open>Facts about the scoring engine\<close>

lemma rankActivity_truncate: "Activity.truncate (rankActivity a nowUtc) = a"
  by (simp add: rankActivity_def Let_def Activity.defs RankedActivity.defs split: prod.splits)

lemma rankActivity_fields:
  "type (rankActivity a nowUtc) = type a"
  "dueAt (rankActivity a nowUtc) = dueAt a"
  "subjectId (rankActivity a nowUtc) = subjectId a"
  "id' (rankActivity a nowUtc) = id' a"
  by (simp_all add: rankActivity_def Let_def Activity.defs RankedActivity.defs
      split: prod.splits)

lemma rankActivity_score:
  "score (rankActivity a nowUtc) =
     (if honoursManual a then of_int (the (manualPriority a)) else autoScore a nowUtc)"
  by (simp add: rankActivity_def Let_def Activity.defs RankedActivity.defs)

lemma rankActivity_source:
  "prioritySource (rankActivity a nowUtc) = (if honoursManual a then manual else auto)"
  by (simp add: rankActivity_def Let_def Activity.defs RankedActivity.defs)

lemma rankActivity_color:
  "color (rankActivity a nowUtc) = computeColorByDue (hoursRemaining a nowUtc)"
  by (simp add: rankActivity_def Let_def Activity.defs RankedActivity.defs split: prod.splits)

section \<open>Claims about the scoring engine\<close>

text \<open>
  C1. For every activity whose priority is not an honoured manual override and every current
  instant, the score is the type base (examen 100, entrega 70, tarea 70, lectura 40, clase and
  anything else 10) plus the status adjustment (pending 20, in_progress 10, completed -100,
  anything else 0) plus the urgency term (200 divided by the remaining hours when a due date
  is set, 0 otherwise).
\<close>

theorem auto_score_formula:
  assumes "\<not> (priority a = ''manual'' \<and> manualPriority a \<noteq> None)"
  shows "score (rankActivity a nowUtc) =
      (if type a = ''examen'' then 100
       else if type a = ''entrega'' then 70
       else if type a = ''tarea'' then 70
       else if type a = ''lectura'' then 40
       else if type a = ''clase'' then 10
       else 10)
    + (if status a = ''pending'' then 20
       else if status a = ''in_progress'' then 10
       else if status a = ''completed'' then - 100
       else 0)
    + (case dueAt a of
         None \<Rightarrow> 0
       | Some due \<Rightarrow> 200 / of_int (max 1 (differenceInHours due nowUtc)))"
proof -
  have u: "urgency (hoursRemaining a nowUtc) =
      (case dueAt a of None \<Rightarrow> 0
       | Some due \<Rightarrow> 200 / of_int (max 1 (differenceInHours due nowUtc)))"
    by (simp add: urgency_def hoursRemaining_def split: option.splits)
  from assms have "score (rankActivity a nowUtc) = autoScore a nowUtc"
    by (auto simp: rankActivity_score honoursManual_def)
  then show ?thesis
    unfolding autoScore_def u by (simp add: computeTypeBase_def computeStateAdjust_def)
qed

theorem auto_score_formula_witness:
  "\<not> (priority sampleActivity = ''manual'' \<and> manualPriority sampleActivity \<noteq> None)
   \<and> score (rankActivity sampleActivity 0) = 100 + 20 + 200 / 12"
  using auto_score_formula [of sampleActivity 0]
  by (simp add: sample_simps)

text \<open>
  C2. When the priority mode is manual and manualPriority is set, the score is manualPriority
  as it is and the source is manual, whatever type, status and due date are (changing them,
  or the instant, leaves the score unchanged); in every other case the score is the auto
  score and the source is auto.
\<close>

theorem manual_override:
  "(priority a = ''manual'' \<and> manualPriority a = Some m \<longrightarrow>
      score (rankActivity a nowUtc) = of_int m
      \<and> prioritySource (rankActivity a nowUtc) = manual
      \<and> score (rankActivity (a\<lparr>type := t, status := s, dueAt := d\<rparr>) nowUtc')
          = score (rankActivity a nowUtc))
   \<and> (\<not> (priority a = ''manual'' \<and> manualPriority a \<noteq> None) \<longrightarrow>
      score (rankActivity a nowUtc) = autoScore a nowUtc
      \<and> prioritySource (rankActivity a nowUtc) = auto)"
  by (auto simp: rankActivity_score rankActivity_source honoursManual_def)

theorem manual_override_witness:
  "score (rankActivity (sampleActivity\<lparr>priority := ''manual'', manualPriority := Some 250\<rparr>) 0) = 250
   \<and> prioritySource (rankActivity (sampleActivity\<lparr>priority := ''manual'', manualPriority := Some 250\<rparr>) 0) = manual
   \<and> score (rankActivity (sampleActivity\<lparr>priority := ''manual'', manualPriority := Some 250,
         type := ''lectura'', status := ''completed'', dueAt := None\<rparr>) 7) = 250
   \<and> score (rankActivity sampleActivity 0) = 410 / 3
   \<and> prioritySource (rankActivity sampleActivity 0) = auto
   \<and> score (rankActivity (sampleActivity\<lparr>priority := ''manual''\<rparr>) 0) = 410 / 3
   \<and> prioritySource (rankActivity (sampleActivity\<lparr>priority := ''manual''\<rparr>) 0) = auto"
  using manual_override [where a = "sampleActivity\<lparr>priority := ''manual'', manualPriority := Some 250\<rparr>"
      and m = 250 and nowUtc = 0 and t = "''lectura''" and s = "''completed''" and d = None
      and nowUtc' = 7]
    manual_override [where a = sampleActivity and nowUtc = 0]
    manual_override [where a = "sampleActivity\<lparr>priority := ''manual''\<rparr>" and nowUtc = 0]
  by (simp add: sample_simps autoScore_def computeTypeBase_def computeStateAdjust_def
      urgency_def hoursRemaining_def)

text \<open>
  C3. The colour depends on the remaining hours only: none without a due date, red up to 48
  hours, yellow from 72 to 120 hours, green above 120 hours, and none strictly between 48
  and 72 hours.
\<close>

theorem color_by_remaining_hours:
  "(dueAt a = None \<longrightarrow> color (rankActivity a nowUtc) = none)
   \<and> (\<forall>h. hoursRemaining a nowUtc = Some h \<longrightarrow>
        (h \<le> 48 \<longrightarrow> color (rankActivity a nowUtc) = red)
        \<and> (72 \<le> h \<and> h \<le> 120 \<longrightarrow> color (rankActivity a nowUtc) = yellow)
        \<and> (120 < h \<longrightarrow> color (rankActivity a nowUtc) = green)
        \<and> (48 < h \<and> h < 72 \<longrightarrow> color (rankActivity a nowUtc) = none))
   \<and> (hoursRemaining a nowUtc = hoursRemaining b nowUtc' \<longrightarrow>
        color (rankActivity a nowUtc) = color (rankActivity b nowUtc'))"
  by (auto simp: rankActivity_color computeColorByDue_def hoursRemaining_def)

theorem color_by_remaining_hours_witness:
  "color (rankActivity (sampleActivity\<lparr>dueAt := None\<rparr>) 0) = none
   \<and> hoursRemaining (sampleActivity\<lparr>dueAt := Some (48 * 3600000)\<rparr>) 0 = Some 48
   \<and> color (rankActivity (sampleActivity\<lparr>dueAt := Some (48 * 3600000)\<rparr>) 0) = red
   \<and> hoursRemaining (sampleActivity\<lparr>dueAt := Some (72 * 3600000)\<rparr>) 0 = Some 72
   \<and> color (rankActivity (sampleActivity\<lparr>dueAt := Some (72 * 3600000)\<rparr>) 0) = yellow
   \<and> hoursRemaining (sampleActivity\<lparr>dueAt := Some (121 * 3600000)\<rparr>) 0 = Some 121
   \<and> color (rankActivity (sampleActivity\<lparr>dueAt := Some (121 * 3600000)\<rparr>) 0) = green
   \<and> hoursRemaining (sampleActivity\<lparr>dueAt := Some (71 * 3600000)\<rparr>) 0 = Some 71
   \<and> color (rankActivity (sampleActivity\<lparr>dueAt := Some (71 * 3600000)\<rparr>) 0) = none
   \<and> hoursRemaining (sampleActivity\<lparr>type := ''tarea'', status := ''completed''\<rparr>) 3600000
        = hoursRemaining sampleActivity 3600000
   \<and> color (rankActivity (sampleActivity\<lparr>type := ''tarea'', status := ''completed''\<rparr>) 3600000)
        = color (rankActivity sampleActivity 3600000)"
  using color_by_remaining_hours [of "sampleActivity\<lparr>dueAt := None\<rparr>" 0 sampleActivity 0]
    color_by_remaining_hours [of "sampleActivity\<lparr>dueAt := Some (48 * 3600000)\<rparr>" 0 sampleActivity 0]
    color_by_remaining_hours [of "sampleActivity\<lparr>dueAt := Some (72 * 3600000)\<rparr>" 0 sampleActivity 0]
    color_by_remaining_hours [of "sampleActivity\<lparr>dueAt := Some (121 * 3600000)\<rparr>" 0 sampleActivity 0]
    color_by_remaining_hours [of "sampleActivity\<lparr>dueAt := Some (71 * 3600000)\<rparr>" 0 sampleActivity 0]
    color_by_remaining_hours [of "sampleActivity\<lparr>type := ''tarea'', status := ''completed''\<rparr>"
      3600000 sampleActivity 3600000]
  by (simp add: sample_simps hoursRemaining_def rankActivity_color computeColorByDue_def)


lemma differenceInHours_whole:
  "0 \<le> k \<Longrightarrow> 0 \<le> r \<Longrightarrow> r < 3600000 \<Longrightarrow> differenceInHours (nowUtc + k * 3600000 + r) nowUtc = k"
  by (simp add: differenceInHours_def millisecondsInHour_def Let_def)

lemma differenceInHours_overdue: "due \<le> nowUtc \<Longrightarrow> differenceInHours due nowUtc \<le> 0"
  by (simp add: differenceInHours_def millisecondsInHour_def Let_def pos_imp_zdiv_nonneg_iff)

text \<open>
  C4. With a due date the remaining hours are the maximum of 1 and the whole hours from now
  to the due date, so they are never 0 and the urgency term 200 / hours lies in (0, 200]; a
  difference of exactly one hour and an overdue date both give 1. Without a due date the
  urgency term is 0.
\<close>

theorem remaining_hours_floor:
  "(dueAt a = Some due \<longrightarrow>
      hoursRemaining a nowUtc = Some (max 1 (differenceInHours due nowUtc))
      \<and> (\<exists>h. hoursRemaining a nowUtc = Some h \<and> 1 \<le> h \<and> h \<noteq> 0
            \<and> urgency (hoursRemaining a nowUtc) = 200 / of_int h
            \<and> 0 < urgency (hoursRemaining a nowUtc)
            \<and> urgency (hoursRemaining a nowUtc) \<le> 200))
   \<and> (0 \<le> k \<and> 0 \<le> r \<and> r < 3600000 \<and> dueAt a = Some (nowUtc + k * 3600000 + r) \<longrightarrow>
        hoursRemaining a nowUtc = Some (max 1 k))
   \<and> (dueAt a = Some due \<and> differenceInHours due nowUtc = 1 \<longrightarrow>
        hoursRemaining a nowUtc = Some 1)
   \<and> (dueAt a = Some due \<and> differenceInHours due nowUtc \<le> 0 \<longrightarrow>
        hoursRemaining a nowUtc = Some 1)
   \<and> (dueAt a = Some due \<and> due \<le> nowUtc \<longrightarrow>
        hoursRemaining a nowUtc = Some 1 \<and> urgency (hoursRemaining a nowUtc) = 200)
   \<and> (dueAt a = None \<longrightarrow>
        hoursRemaining a nowUtc = None \<and> urgency (hoursRemaining a nowUtc) = 0)"
proof -
  have pos: "0 < (200::rat) / of_int (max 1 x) \<and> (200::rat) / of_int (max 1 x) \<le> 200" for x :: int
  proof -
    have "(1::rat) \<le> of_int (max 1 x)" by simp
    then show ?thesis by (simp add: divide_le_eq)
  qed
  have over: "due \<le> nowUtc \<Longrightarrow> max 1 (differenceInHours due nowUtc) = 1"
    using differenceInHours_overdue [of due nowUtc] by simp
  have whole: "0 \<le> k \<Longrightarrow> 0 \<le> r \<Longrightarrow> r < 3600000 \<Longrightarrow>
      dueAt a = Some (nowUtc + k * 3600000 + r) \<Longrightarrow> hoursRemaining a nowUtc = Some (max 1 k)"
    using differenceInHours_whole [of k r nowUtc] by (simp add: hoursRemaining_def)
  show ?thesis
    using pos [of "differenceInHours due nowUtc"] over whole
    by (auto simp: hoursRemaining_def urgency_def)
qed

theorem remaining_hours_floor_witness:
  "hoursRemaining sampleActivity 0 = Some 12
   \<and> urgency (hoursRemaining sampleActivity 0) = 200 / 12
   \<and> hoursRemaining (sampleActivity\<lparr>dueAt := Some (100 + 5 * 3600000 + 1799000)\<rparr>) 100 = Some 5
   \<and> differenceInHours 43200000 39600000 = 1
   \<and> hoursRemaining sampleActivity 39600000 = Some 1
   \<and> differenceInHours 43200000 43200000 \<le> 0
   \<and> hoursRemaining sampleActivity 43200000 = Some 1
   \<and> hoursRemaining sampleActivity 50400000 = Some 1
   \<and> urgency (hoursRemaining sampleActivity 50400000) = 200
   \<and> urgency (hoursRemaining (sampleActivity\<lparr>dueAt := None\<rparr>) 0) = 0"
  using remaining_hours_floor [where a = sampleActivity and due = 43200000 and nowUtc = 0]
    remaining_hours_floor [where a = "sampleActivity\<lparr>dueAt := Some (100 + 5 * 3600000 + 1799000)\<rparr>"
      and nowUtc = 100 and k = 5 and r = 1799000]
    remaining_hours_floor [where a = sampleActivity and due = 43200000 and nowUtc = 39600000]
    remaining_hours_floor [where a = sampleActivity and due = 43200000 and nowUtc = 43200000]
    remaining_hours_floor [where a = sampleActivity and due = 43200000 and nowUtc = 50400000]
    remaining_hours_floor [where a = "sampleActivity\<lparr>dueAt := None\<rparr>" and nowUtc = 0]
  by (simp add: sample_simps hoursRemaining_def urgency_def)

text \<open>
  C7. Of two activities scored automatically at the same instant, with the same type and
  the same due date, the completed one scores strictly below the pending or in-progress one.
  An exam due in one hour scores 320 when pending and 200 when completed.
\<close>

theorem completed_below_open:
  "(\<not> honoursManual a \<and> \<not> honoursManual b \<and> type a = type b \<and> dueAt a = dueAt b
      \<and> status a = ''completed'' \<and> (status b = ''pending'' \<or> status b = ''in_progress'') \<longrightarrow>
      score (rankActivity a nowUtc) < score (rankActivity b nowUtc))
   \<and> (type a = ''examen'' \<and> priority a = ''auto'' \<and> dueAt a = Some (nowUtc + 3600000) \<longrightarrow>
        (status a = ''pending'' \<longrightarrow> score (rankActivity a nowUtc) = 320)
        \<and> (status a = ''completed'' \<longrightarrow> score (rankActivity a nowUtc) = 200))"
proof -
  have h1: "dueAt a = Some (nowUtc + 3600000) \<Longrightarrow> urgency (hoursRemaining a nowUtc) = 200"
    using differenceInHours_whole [of 1 0 nowUtc]
    by (simp add: hoursRemaining_def urgency_def)
  show ?thesis
    using h1
    by (auto simp: rankActivity_score autoScore_def computeStateAdjust_def computeTypeBase_def
        hoursRemaining_def honoursManual_def)
qed

theorem completed_below_open_witness:
  "\<not> honoursManual (sampleActivity\<lparr>status := ''completed''\<rparr>) \<and> \<not> honoursManual sampleActivity
   \<and> score (rankActivity (sampleActivity\<lparr>status := ''completed''\<rparr>) 0) = 50 / 3
   \<and> score (rankActivity sampleActivity 0) = 410 / 3
   \<and> score (rankActivity (sampleActivity\<lparr>status := ''completed''\<rparr>) 0)
        < score (rankActivity sampleActivity 0)
   \<and> score (rankActivity sampleActivity 39600000) = 320
   \<and> score (rankActivity (sampleActivity\<lparr>status := ''completed''\<rparr>) 39600000) = 200"
  using completed_below_open [where a = "sampleActivity\<lparr>status := ''completed''\<rparr>"
      and b = sampleActivity and nowUtc = 0]
    completed_below_open [where a = sampleActivity and nowUtc = 39600000]
    completed_below_open [where a = "sampleActivity\<lparr>status := ''completed''\<rparr>" and nowUtc = 39600000]
  by (simp add: sample_simps honoursManual_def rankActivity_score autoScore_def
      computeStateAdjust_def computeTypeBase_def hoursRemaining_def urgency_def)

text \<open>
  C10. A manual priority of exactly 0 is honoured: the score is 0 and the source is manual,
  not the auto score.
\<close>

theorem manual_zero_is_manual:
  "priority a = ''manual'' \<and> manualPriority a = Some 0 \<longrightarrow>
     honoursManual a
     \<and> score (rankActivity a nowUtc) = 0
     \<and> prioritySource (rankActivity a nowUtc) = manual"
  by (simp add: rankActivity_score rankActivity_source honoursManual_def)

theorem manual_zero_is_manual_witness:
  "score (rankActivity (sampleActivity\<lparr>priority := ''manual'', manualPriority := Some 0\<rparr>) 0) = 0
   \<and> prioritySource (rankActivity (sampleActivity\<lparr>priority := ''manual'', manualPriority := Some 0\<rparr>) 0)
        = manual
   \<and> autoScore (sampleActivity\<lparr>priority := ''manual'', manualPriority := Some 0\<rparr>) 0 = 410 / 3"
  using manual_zero_is_manual [where a = "sampleActivity\<lparr>priority := ''manual'', manualPriority := Some 0\<rparr>"
      and nowUtc = 0]
  by (simp add: sample_simps autoScore_def computeStateAdjust_def computeTypeBase_def
      hoursRemaining_def urgency_def)

section \<open>Claims about the ranking endpoint\<close>

lemma set_insertSorted: "set (insertSorted cmp x xs) = insert x (set xs)"
  by (induction xs) auto

lemma mset_insertSorted: "mset (insertSorted cmp x xs) = add_mset x (mset xs)"
  by (induction xs) auto

lemma mset_arraySort: "mset (arraySort cmp xs) = mset xs"
  by (induction xs) (simp_all add: arraySort_def mset_insertSorted)

lemma set_arraySort: "set (arraySort cmp xs) = set xs"
  using mset_arraySort [of cmp xs] by (metis set_mset_mset)

lemma sorted_insertSorted:
  assumes total: "\<And>a b. cmp a b \<le> 0 \<or> cmp b a \<le> 0"
    and trans: "\<And>a b c. cmp a b \<le> 0 \<Longrightarrow> cmp b c \<le> 0 \<Longrightarrow> cmp a c \<le> 0"
  shows "sorted_wrt (\<lambda>a b. cmp a b \<le> 0) xs \<Longrightarrow>
         sorted_wrt (\<lambda>a b. cmp a b \<le> 0) (insertSorted cmp x xs)"
proof (induction xs)
  case Nil
  then show ?case by simp
next
  case (Cons y ys)
  show ?case
  proof (cases "cmp x y \<le> 0")
    case True
    with Cons.prems show ?thesis by (auto intro: trans)
  next
    case False
    then have "cmp y x \<le> 0" using total [of x y] by simp
    with False Cons show ?thesis by (auto simp: set_insertSorted)
  qed
qed

lemma sorted_arraySort:
  assumes total: "\<And>a b. cmp a b \<le> 0 \<or> cmp b a \<le> 0"
    and trans: "\<And>a b c. cmp a b \<le> 0 \<Longrightarrow> cmp b c \<le> 0 \<Longrightarrow> cmp a c \<le> 0"
  shows "sorted_wrt (\<lambda>a b. cmp a b \<le> 0) (arraySort cmp xs)"
proof (induction xs)
  case Nil
  then show ?case by (simp add: arraySort_def)
next
  case (Cons x xs)
  then show ?case
    using sorted_insertSorted [of cmp "arraySort cmp xs" x, OF total trans]
    by (simp add: arraySort_def)
qed

lemma rankingCompare_le0:
  "rankingCompare a b \<le> 0 \<longleftrightarrow>
     score b < score a
     \<or> (score a = score b
        \<and> (getTimeOr0 (dueAt a) < getTimeOr0 (dueAt b)
           \<or> (getTimeOr0 (dueAt a) = getTimeOr0 (dueAt b)
              \<and> computeTypeBase (type b) \<le> computeTypeBase (type a))))"
  by (auto simp: rankingCompare_def js_or_def)

lemma rankingCompare_total: "rankingCompare a b \<le> 0 \<or> rankingCompare b a \<le> 0"
  unfolding rankingCompare_le0 by linarith

lemma rankingCompare_trans:
  "rankingCompare a b \<le> 0 \<Longrightarrow> rankingCompare b c \<le> 0 \<Longrightarrow> rankingCompare a c \<le> 0"
  unfolding rankingCompare_le0 by (elim disjE conjE) simp_all

lemma ranking_sorted_compare:
  "sorted_wrt (\<lambda>a b. rankingCompare a b \<le> 0) (ranking db q nowUtc)"
  unfolding ranking_def Let_def
  by (rule sorted_arraySort [OF rankingCompare_total rankingCompare_trans])


lemmas ranking_eval =
  ranking_def findMany_def arraySort_def rankingCompare_def js_or_def getTimeOr0_def
  rankActivity_score rankActivity_fields autoScore_def honoursManual_def urgency_def
  hoursRemaining_def computeTypeBase_def computeStateAdjust_def

text \<open>
  C5 (amended). The ranking is sorted by descending score; among equal scores by ascending
  due date, a missing due date counting as the epoch (time 0); among equal scores and equal
  due dates by descending type base. Hence an activity without a due date comes before
  every activity of the same score that is due after the epoch.
\<close>

theorem ranking_order:
  "sorted_wrt (\<lambda>a b.
       score b < score a
       \<or> (score a = score b
          \<and> (getTimeOr0 (dueAt a) < getTimeOr0 (dueAt b)
             \<or> (getTimeOr0 (dueAt a) = getTimeOr0 (dueAt b)
                \<and> computeTypeBase (type b) \<le> computeTypeBase (type a)))))
     (ranking db q nowUtc)
   \<and> (\<forall>i j t. i < length (ranking db q nowUtc) \<and> j < length (ranking db q nowUtc)
          \<and> score (ranking db q nowUtc ! i) = score (ranking db q nowUtc ! j)
          \<and> dueAt (ranking db q nowUtc ! i) = None
          \<and> dueAt (ranking db q nowUtc ! j) = Some t \<and> 0 < t \<longrightarrow> i < j)"
proof -
  define rs where "rs = ranking db q nowUtc"
  have s: "sorted_wrt (\<lambda>a b. rankingCompare a b \<le> 0) rs"
    unfolding rs_def by (rule ranking_sorted_compare)
  have "i < j" if "i < length rs" "j < length rs" "score (rs ! i) = score (rs ! j)"
    "dueAt (rs ! i) = None" "dueAt (rs ! j) = Some t" "0 < t" for i j t
  proof (rule ccontr)
    assume "\<not> i < j"
    with that have "j < i" by (cases "i = j") auto
    with s that(1) have "rankingCompare (rs ! j) (rs ! i) \<le> 0"
      by (simp add: sorted_wrt_iff_nth_less)
    with that show False by (simp add: rankingCompare_le0 getTimeOr0_def)
  qed
  with s show ?thesis unfolding rs_def [symmetric] by (simp add: rankingCompare_le0)
qed

theorem ranking_order_witness:
  "map id' (ranking sampleDb None 0) = [''a1'', ''a3'', ''a2'', ''a4'']
   \<and> map score (ranking sampleDb None 0) = [410 / 3, 110, 110, 110]
   \<and> map dueAt (ranking sampleDb None 0) = [Some 43200000, None, Some 36000000, Some 36000000]
   \<and> map type (ranking sampleDb None 0) = [''examen'', ''examen'', ''tarea'', ''lectura'']
   \<and> score (ranking sampleDb None 0 ! 1) = score (ranking sampleDb None 0 ! 2)
   \<and> dueAt (ranking sampleDb None 0 ! 1) = None
   \<and> dueAt (ranking sampleDb None 0 ! 2) = Some 36000000
   \<and> (1::nat) < 2"
  using ranking_order [of sampleDb None 0]
  by (simp add: sampleDb_def sample_simps ranking_eval)

text \<open>
  An activity due before the epoch comes before an activity of the same score without a due
  date: the undated activity is not first among the ties.
\<close>

theorem ranking_undated_first_counterexample:
  "map id' (ranking beforeEpochDb None 0) = [''d1'', ''n1'']
   \<and> map score (ranking beforeEpochDb None 0) = [50, 50]
   \<and> map dueAt (ranking beforeEpochDb None 0) = [Some (- 3600000), None]"
  by (simp add: beforeEpochDb_def sample_simps ranking_eval)


text \<open>
  C6. Whatever the store and the subject filter, the ranking holds no activity of type clase,
  whatever its status, due date or priority mode, and holds exactly the scored non-class
  activities of the store that match the filter (an absent or empty filter matches all).
\<close>

theorem ranking_contents:
  "(\<forall>r \<in> set (ranking db q nowUtc). type r \<noteq> ''clase'')
   \<and> (\<forall>r \<in> set (ranking db q nowUtc). r = rankActivity (Activity.truncate r) nowUtc)
   \<and> (q = None \<or> q = Some [] \<longrightarrow>
        mset (map Activity.truncate (ranking db q nowUtc))
          = mset (filter (\<lambda>a. type a \<noteq> ''clase'') db))
   \<and> (q = Some s \<and> s \<noteq> [] \<longrightarrow>
        mset (map Activity.truncate (ranking db q nowUtc))
          = mset (filter (\<lambda>a. type a \<noteq> ''clase'' \<and> subjectId a = s) db))"
proof -
  define wh where "wh = (\<lambda>a::Activity. type a \<noteq> ''clase''
      \<and> (if truthy_string q then subjectId a = the q else True))"
  have r: "ranking db q nowUtc = arraySort rankingCompare (map (\<lambda>a. rankActivity a nowUtc) (filter wh db))"
    by (simp add: ranking_def findMany_def wh_def)
  have m: "mset (map Activity.truncate (ranking db q nowUtc)) = mset (filter wh db)"
  proof -
    have "mset (map Activity.truncate (ranking db q nowUtc))
        = image_mset Activity.truncate (mset (arraySort rankingCompare
            (map (\<lambda>a. rankActivity a nowUtc) (filter wh db))))"
      by (simp add: r)
    also have "\<dots> = image_mset Activity.truncate (mset (map (\<lambda>a. rankActivity a nowUtc) (filter wh db)))"
      by (simp only: mset_arraySort)
    also have "\<dots> = mset (filter wh db)"
      by (simp add: multiset.map_comp comp_def rankActivity_truncate)
    finally show ?thesis .
  qed
  have s: "set (ranking db q nowUtc) = (\<lambda>a. rankActivity a nowUtc) ` {a \<in> set db. wh a}"
    by (simp add: r set_arraySort)
  have 1: "\<forall>r \<in> set (ranking db q nowUtc). type r \<noteq> ''clase''"
    unfolding s by (auto simp: rankActivity_fields wh_def)
  have 2: "\<forall>r \<in> set (ranking db q nowUtc). r = rankActivity (Activity.truncate r) nowUtc"
    unfolding s by (auto simp: rankActivity_truncate)
  have 3: "wh = (\<lambda>a. type a \<noteq> ''clase'')" if "q = None \<or> q = Some []"
    using that by (auto simp: wh_def)
  have 4: "wh = (\<lambda>a. type a \<noteq> ''clase'' \<and> subjectId a = s)" if "q = Some s" "s \<noteq> []"
    using that by (auto simp: wh_def)
  show ?thesis using 1 2 3 4 m by auto
qed

theorem ranking_contents_witness:
  "map id' (ranking sampleDb None 0) = [''a1'', ''a3'', ''a2'', ''a4'']
   \<and> map id' (ranking sampleDb (Some []) 0) = [''a1'', ''a3'', ''a2'', ''a4'']
   \<and> map id' (ranking sampleDb (Some ''s2'') 0) = [''a2'', ''a4'']
   \<and> map id' (filter (\<lambda>a. type a \<noteq> ''clase'') sampleDb) = [''a4'', ''a2'', ''a3'', ''a1'']
   \<and> map id' (filter (\<lambda>a. type a \<noteq> ''clase'' \<and> subjectId a = ''s2'') sampleDb) = [''a4'', ''a2'']
   \<and> mset (map Activity.truncate (ranking sampleDb (Some ''s2'') 0))
        = mset (filter (\<lambda>a. type a \<noteq> ''clase'' \<and> subjectId a = ''s2'') sampleDb)
   \<and> mset (map Activity.truncate (ranking sampleDb None 0))
        = mset (filter (\<lambda>a. type a \<noteq> ''clase'') sampleDb)
   \<and> mset (map Activity.truncate (ranking sampleDb (Some []) 0))
        = mset (filter (\<lambda>a. type a \<noteq> ''clase'') sampleDb)"
  using ranking_contents [of sampleDb None 0 "''s2''"]
    ranking_contents [of sampleDb "Some []" 0 "''s2''"]
    ranking_contents [of sampleDb "Some ''s2''" 0 "''s2''"]
  by (simp add: sampleDb_def sample_simps ranking_eval)

section \<open>Claims about the toggle-completed endpoint\<close>

lemma findUnique_id: "findUnique db i = Some a \<Longrightarrow> id' a = i"
  by (auto simp: findUnique_def find_Some_iff)

lemma findUnique_replace:
  "findUnique db i = Some a \<Longrightarrow> id' a' = i \<Longrightarrow>
   findUnique (map (\<lambda>r. if id' r = i then a' else r) db) i = Some a'"
  by (induction db) (auto simp: findUnique_def)

lemma toggleCompleted_found:
  assumes "findUnique db i = Some a"
  shows "\<exists>db1. toggleCompleted db i now =
           Inr (db1, (if status a = ''completed''
                      then a\<lparr>status := ''pending'', completedAt := None, completedBy := None,
                             updatedAt := now\<rparr>
                      else a\<lparr>status := ''completed'', completedAt := Some now,
                             completedBy := Some ''student'', updatedAt := now\<rparr>))
         \<and> findUnique db1 i =
             Some (if status a = ''completed''
                   then a\<lparr>status := ''pending'', completedAt := None, completedBy := None,
                          updatedAt := now\<rparr>
                   else a\<lparr>status := ''completed'', completedAt := Some now,
                          completedBy := Some ''student'', updatedAt := now\<rparr>)"
  using assms findUnique_id [OF assms]
  by (auto simp: toggleCompleted_def update_def Let_def intro!: findUnique_replace)

text \<open>
  C8 (amended). For an existing activity, one toggle turns completed into pending and clears
  both completion fields, and turns any other status into completed and sets both. Two
  toggles restore the status when it was completed or pending, and restore the null/non-null
  shape of the completion fields when moreover these were set exactly when the status was
  completed.
\<close>

theorem toggle_twice:
  assumes "findUnique db i = Some a"
  shows "\<exists>db1 a1 db2 a2.
       toggleCompleted db i now1 = Inr (db1, a1) \<and> findUnique db1 i = Some a1
     \<and> toggleCompleted db1 i now2 = Inr (db2, a2) \<and> findUnique db2 i = Some a2
     \<and> toggleTwice db i now1 now2 = Inr (db2, a2)
     \<and> (status a = ''completed'' \<longrightarrow>
          status a1 = ''pending'' \<and> completedAt a1 = None \<and> completedBy a1 = None)
     \<and> (status a \<noteq> ''completed'' \<longrightarrow>
          status a1 = ''completed'' \<and> completedAt a1 = Some now1
          \<and> completedBy a1 = Some ''student'')
     \<and> (status a = ''completed'' \<or> status a = ''pending'' \<longrightarrow> status a2 = status a)
     \<and> ((status a = ''completed'' \<or> status a = ''pending'')
          \<and> (completedAt a \<noteq> None \<longleftrightarrow> status a = ''completed'')
          \<and> (completedBy a \<noteq> None \<longleftrightarrow> status a = ''completed'') \<longrightarrow>
          (completedAt a2 = None \<longleftrightarrow> completedAt a = None)
          \<and> (completedBy a2 = None \<longleftrightarrow> completedBy a = None))"
proof -
  from toggleCompleted_found [OF assms, of now1] obtain db1 a1 where
    t1: "toggleCompleted db i now1 = Inr (db1, a1)" and f1: "findUnique db1 i = Some a1"
    and a1: "a1 = (if status a = ''completed''
                      then a\<lparr>status := ''pending'', completedAt := None, completedBy := None,
                             updatedAt := now1\<rparr>
                      else a\<lparr>status := ''completed'', completedAt := Some now1,
                             completedBy := Some ''student'', updatedAt := now1\<rparr>)"
    by blast
  from toggleCompleted_found [OF f1, of now2] obtain db2 a2 where
    t2: "toggleCompleted db1 i now2 = Inr (db2, a2)" and f2: "findUnique db2 i = Some a2"
    and a2: "a2 = (if status a1 = ''completed''
                      then a1\<lparr>status := ''pending'', completedAt := None, completedBy := None,
                             updatedAt := now2\<rparr>
                      else a1\<lparr>status := ''completed'', completedAt := Some now2,
                             completedBy := Some ''student'', updatedAt := now2\<rparr>)"
    by blast
  have tt: "toggleTwice db i now1 now2 = Inr (db2, a2)"
    by (simp add: toggleTwice_def t1 t2)
  have props: "(status a = ''completed'' \<longrightarrow>
          status a1 = ''pending'' \<and> completedAt a1 = None \<and> completedBy a1 = None)
     \<and> (status a \<noteq> ''completed'' \<longrightarrow>
          status a1 = ''completed'' \<and> completedAt a1 = Some now1
          \<and> completedBy a1 = Some ''student'')
     \<and> (status a = ''completed'' \<or> status a = ''pending'' \<longrightarrow> status a2 = status a)
     \<and> ((status a = ''completed'' \<or> status a = ''pending'')
          \<and> (completedAt a \<noteq> None \<longleftrightarrow> status a = ''completed'')
          \<and> (completedBy a \<noteq> None \<longleftrightarrow> status a = ''completed'') \<longrightarrow>
          (completedAt a2 = None \<longleftrightarrow> completedAt a = None)
          \<and> (completedBy a2 = None \<longleftrightarrow> completedBy a = None))"
    unfolding a2 a1 by auto
  from t1 f1 t2 f2 tt props show ?thesis
    by - (rule exI [of _ db1], rule exI [of _ a1], rule exI [of _ db2], rule exI [of _ a2],
        (rule conjI, assumption)+, assumption)
qed

theorem toggle_twice_witness:
  "findUnique sampleDb ''a1'' = Some sampleActivity
   \<and> status sampleActivity = ''pending''
   \<and> completedAt sampleActivity = None \<and> completedBy sampleActivity = None
   \<and> toggleCompleted sampleDb ''a1'' 1000
       = Inr (take 4 sampleDb @ [sampleActivity\<lparr>status := ''completed'', completedAt := Some 1000,
                completedBy := Some ''student'', updatedAt := 1000\<rparr>],
              sampleActivity\<lparr>status := ''completed'', completedAt := Some 1000,
                completedBy := Some ''student'', updatedAt := 1000\<rparr>)
   \<and> toggleTwice sampleDb ''a1'' 1000 2000
       = Inr (take 4 sampleDb @ [sampleActivity\<lparr>updatedAt := 2000\<rparr>],
              sampleActivity\<lparr>updatedAt := 2000\<rparr>)
   \<and> toggleTwice (take 4 sampleDb @ [sampleActivity\<lparr>status := ''completed'',
           completedAt := Some 1000, completedBy := Some ''student''\<rparr>]) ''a1'' 2000 3000
       = Inr (take 4 sampleDb @ [sampleActivity\<lparr>status := ''completed'',
                completedAt := Some 3000, completedBy := Some ''student'', updatedAt := 3000\<rparr>],
              sampleActivity\<lparr>status := ''completed'', completedAt := Some 3000,
                completedBy := Some ''student'', updatedAt := 3000\<rparr>)"
  using toggle_twice [of sampleDb "''a1''" sampleActivity 1000 2000]
    toggle_twice [of "take 4 sampleDb @ [sampleActivity\<lparr>status := ''completed'',
           completedAt := Some 1000, completedBy := Some ''student''\<rparr>]" "''a1''"
        "sampleActivity\<lparr>status := ''completed'',
           completedAt := Some 1000, completedBy := Some ''student''\<rparr>" 2000 3000]
  by (simp add: sampleDb_def sampleActivity_def toggleTwice_def toggleCompleted_def update_def
      findUnique_def Let_def)

text \<open>
  Two toggles turn an in-progress activity into a pending one, and give a completed activity
  whose completion fields were empty a completion instant and actor.
\<close>

theorem toggle_twice_counterexample:
  "findUnique [sampleActivity\<lparr>status := ''in_progress''\<rparr>] ''a1''
       = Some (sampleActivity\<lparr>status := ''in_progress''\<rparr>)
   \<and> toggleTwice [sampleActivity\<lparr>status := ''in_progress''\<rparr>] ''a1'' 1000 2000
       = Inr ([sampleActivity\<lparr>status := ''pending'', updatedAt := 2000\<rparr>],
              sampleActivity\<lparr>status := ''pending'', updatedAt := 2000\<rparr>)
   \<and> ''pending'' \<noteq> ''in_progress''
   \<and> completedAt (sampleActivity\<lparr>status := ''completed''\<rparr>) = None
   \<and> toggleTwice [sampleActivity\<lparr>status := ''completed''\<rparr>] ''a1'' 1000 2000
       = Inr ([sampleActivity\<lparr>status := ''completed'', completedAt := Some 2000,
                 completedBy := Some ''student'', updatedAt := 2000\<rparr>],
              sampleActivity\<lparr>status := ''completed'', completedAt := Some 2000,
                 completedBy := Some ''student'', updatedAt := 2000\<rparr>)"
  by (simp add: sampleActivity_def toggleTwice_def toggleCompleted_def update_def
      findUnique_def Let_def)


section \<open>Claims about the weekly summary\<close>






























end
